theory Spec2Isabelle
  imports Main
begin

section \<open>Python values used by the checker\<close>

text \<open>
  A Python \<open>str\<close> is a \<open>string\<close> holding the UTF-8 bytes of the text; the only slice the
  code takes (\<open>hex(...)[:16]\<close>) is of an ASCII string, where bytes and code points agree.
  A \<open>datetime\<close> is the number of microseconds since 0001-01-01T00:00:00 UTC (the
  resolution of Python's \<open>datetime\<close>); \<open>replace(tzinfo=None)\<close> keeps that number.
  A \<open>timedelta\<close> is a number of microseconds, and its \<open>days\<close> attribute is the floor of
  the quotient by one day (Python normalises \<open>0 \<le> seconds < 86400\<close>, so \<open>days\<close> is
  negative as soon as the difference is).
\<close>

type_synonym datetime = int
type_synonym timedelta = int
type_synonym bytes = "nat list"

definition timedelta_days :: "timedelta \<Rightarrow> int" where
  "timedelta_days td = td div 86400000000"

text \<open>Decimal and hexadecimal rendering: Python's \<open>str(int)\<close> and \<open>hex(int)\<close>.\<close>

definition digit_char :: "int \<Rightarrow> char" where
  "digit_char n = (if n < 10 then char_of (48 + n) else char_of (87 + n))"

function str_digits :: "int \<Rightarrow> string" where
  "str_digits n =
     (if n < 10 then [digit_char n] else str_digits (n div 10) @ [digit_char (n mod 10)])"
  by pat_completeness auto
termination
  by (relation "measure nat") auto

declare str_digits.simps [simp del]

definition str_int :: "int \<Rightarrow> string" where
  "str_int i = (if i < 0 then ''-'' @ str_digits (- i) else str_digits i)"

function hex_digits :: "int \<Rightarrow> string" where
  "hex_digits n =
     (if n < 16 then [digit_char n] else hex_digits (n div 16) @ [digit_char (n mod 16)])"
  by pat_completeness auto
termination
  by (relation "measure nat") auto

declare hex_digits.simps [simp del]

definition hex :: "int \<Rightarrow> string" where
  "hex i = (if i < 0 then ''-0x'' @ hex_digits (- i) else ''0x'' @ hex_digits i)"

section \<open>Exceptions\<close>

text \<open>
  The exceptions the handlers of \<open>check_certificate\<close> tell apart, each with its
  \<open>str(e)\<close>. \<open>Exception\<close> stands for every other subclass of Python's \<open>Exception\<close>.
  \<open>x509_ExtensionNotFound\<close> is one of those; it has a constructor of its own because
  \<open>_parse_certificate\<close> catches it around the SAN lookup.
\<close>

datatype exn =
    socket_timeout string
  | socket_gaierror string
  | ssl_SSLError string
  | x509_ExtensionNotFound string
  | Exception string

fun str_exn :: "exn \<Rightarrow> string" where
  "str_exn (socket_timeout m) = m"
| "str_exn (socket_gaierror m) = m"
| "str_exn (ssl_SSLError m) = m"
| "str_exn (x509_ExtensionNotFound m) = m"
| "str_exn (Exception m) = m"

section \<open>The parsed X.509 certificate (the \<open>cryptography\<close> object)\<close>

datatype GeneralName = DNSName string | OtherGeneralName string

fun GeneralName_value :: "GeneralName \<Rightarrow> string" where
  "GeneralName_value (DNSName v) = v"
| "GeneralName_value (OtherGeneralName v) = v"

fun isinstance_DNSName :: "GeneralName \<Rightarrow> bool" where
  "isinstance_DNSName (DNSName v) = True"
| "isinstance_DNSName (OtherGeneralName v) = False"

text \<open>
  A distinguished name is the ordered sequence of its attributes, each the pair of
  \<open>attr.oid._name\<close> and \<open>attr.value\<close>. Reading \<open>public_key().key_size\<close> raises for key
  types without that attribute, and the SAN lookup raises \<open>ExtensionNotFound\<close> when the
  extension is absent, so both are results.
\<close>

record x509_Certificate =
  cert_issuer :: "(string \<times> string) list"
  cert_subject :: "(string \<times> string) list"
  not_valid_before_utc :: datetime
  not_valid_after_utc :: datetime
  public_key_key_size :: "exn + int"
  get_extension_for_oid_SAN :: "exn + GeneralName list"
  signature_algorithm_oid_name :: string
  serial_number :: int

section \<open>The models of \<open>ssl_models.py\<close>\<close>

record SSLCertificate =
  domain :: string
  isValid :: bool
  issuer :: string
  subject :: string
  notBefore :: datetime
  notAfter :: datetime
  daysUntilExpiry :: int
  isExpired :: bool
  isExpiringSoon :: bool
  keySize :: int
  signatureAlgorithm :: string
  sanList :: "string list"
  serialNumber :: string

text \<open>
  \<open>SSLCheckResult\<close>: the field \<open>domain\<close> is \<open>result_domain\<close> here (a record field name
  is global). \<open>certificate\<close> and \<open>error\<close> default to \<open>None\<close>, \<open>warnings\<close> to the empty
  list, and \<open>checkedAt\<close> to the clock at construction.
\<close>

record SSLCheckResult =
  result_domain :: string
  success :: bool
  certificate :: "SSLCertificate option"
  error :: "string option"
  checkedAt :: datetime
  warnings :: "string list"

section \<open>The environment of one check\<close>

text \<open>
  What one call of \<open>check_certificate\<close> reads from outside: the outcome of connecting to
  \<open>(domain, port)\<close> with a timeout and completing the TLS handshake (the peer's DER
  certificate, or the exception raised), the DER parser of the \<open>cryptography\<close> library,
  and the two clock readings: \<open>datetime.now(tz)\<close> in \<open>_parse_certificate\<close> and
  \<open>datetime.utcnow()\<close> for \<open>checkedAt\<close>.
\<close>

record world =
  getpeercert :: "string \<Rightarrow> int \<Rightarrow> int \<Rightarrow> exn + bytes"
  load_der_x509_certificate :: "bytes \<Rightarrow> exn + x509_Certificate"
  datetime_now :: datetime
  datetime_utcnow :: datetime

section \<open>\<open>SSLCheckerService\<close>\<close>

record SSLCheckerService =
  timeout :: int
  warning_days :: int

definition SSLCheckerService_init :: "int \<Rightarrow> int \<Rightarrow> SSLCheckerService" where
  "SSLCheckerService_init t wd = \<lparr>timeout = t, warning_days = wd\<rparr>"

definition SSLCheckerService_default :: SSLCheckerService where
  "SSLCheckerService_default = SSLCheckerService_init 10 30"

definition get_certificate :: "SSLCheckerService \<Rightarrow> world \<Rightarrow> string \<Rightarrow> int \<Rightarrow> exn + bytes" where
  "get_certificate svc w dname port = getpeercert w dname port (timeout svc)"

text \<open>The two \<open>for ... if ... break\<close> loops over a distinguished name.\<close>

fun common_name_loop :: "string \<Rightarrow> (string \<times> string) list \<Rightarrow> string" where
  "common_name_loop cn [] = cn"
| "common_name_loop cn (attr # attrs) =
     (if fst attr = ''commonName'' then snd attr else common_name_loop cn attrs)"

definition parse_certificate ::
  "SSLCheckerService \<Rightarrow> world \<Rightarrow> bytes \<Rightarrow> string \<Rightarrow> exn + SSLCertificate" where
  "parse_certificate svc w cert_der dname =
     (case load_der_x509_certificate w cert_der of
        Inl e \<Rightarrow> Inl e
      | Inr cert \<Rightarrow>
          let issuer_cn = common_name_loop ''Unknown'' (cert_issuer cert);
              subject_cn = common_name_loop dname (cert_subject cert);
              not_before = not_valid_before_utc cert;
              not_after = not_valid_after_utc cert;
              now = datetime_now w;
              days_until_expiry = timedelta_days (not_after - now);
              is_expired = (now > not_after);
              is_expiring_soon = (0 < days_until_expiry \<and> days_until_expiry \<le> warning_days svc)
          in case public_key_key_size cert of
               Inl e \<Rightarrow> Inl e
             | Inr key_size \<Rightarrow>
                 (case (case get_extension_for_oid_SAN cert of
                          Inr san_ext \<Rightarrow> Inr (map GeneralName_value (filter isinstance_DNSName san_ext))
                        | Inl (x509_ExtensionNotFound m) \<Rightarrow> Inr []
                        | Inl e \<Rightarrow> Inl e) of
                    Inl e \<Rightarrow> Inl e
                  | Inr san_list \<Rightarrow>
                      Inr \<lparr>domain = dname,
                           isValid = (\<not> is_expired),
                           issuer = issuer_cn,
                           subject = subject_cn,
                           notBefore = not_before,
                           notAfter = not_after,
                           daysUntilExpiry = days_until_expiry,
                           isExpired = is_expired,
                           isExpiringSoon = is_expiring_soon,
                           keySize = key_size,
                           signatureAlgorithm = signature_algorithm_oid_name cert,
                           sanList = san_list,
                           serialNumber = take 16 (hex (serial_number cert))\<rparr>))"

text \<open>
  The warning texts, each a function of the number its f-string renders. The warning sign
  is U+26A0 U+FE0F and the siren is U+1F6A8, written as their UTF-8 bytes.
\<close>

definition warning_sign :: string where
  "warning_sign = [CHR 0xE2, CHR 0x9A, CHR 0xA0, CHR 0xEF, CHR 0xB8, CHR 0x8F]"

definition siren :: string where
  "siren = [CHR 0xF0, CHR 0x9F, CHR 0x9A, CHR 0xA8]"

definition expired_warning :: "int \<Rightarrow> string" where
  "expired_warning n = warning_sign @ '' Certificate EXPIRED '' @ str_int n @ '' days ago''"

definition critical_warning :: "int \<Rightarrow> string" where
  "critical_warning d = siren @ '' Certificate expires in '' @ str_int d @ '' days (CRITICAL)''"

definition expiring_warning :: "int \<Rightarrow> string" where
  "expiring_warning d = warning_sign @ '' Certificate expires in '' @ str_int d @ '' days''"

definition weak_key_warning :: string where
  "weak_key_warning = warning_sign @ '' Weak key size (< 2048 bits)''"

definition generate_warnings :: "SSLCheckerService \<Rightarrow> SSLCertificate \<Rightarrow> string list" where
  "generate_warnings svc cert =
     (let warnings0 = [];
          warnings1 =
            (if isExpired cert then warnings0 @ [expired_warning (abs (daysUntilExpiry cert))]
             else if daysUntilExpiry cert \<le> 7 then warnings0 @ [critical_warning (daysUntilExpiry cert)]
             else if isExpiringSoon cert then warnings0 @ [expiring_warning (daysUntilExpiry cert)]
             else warnings0);
          warnings2 =
            (if keySize cert < 2048 then warnings1 @ [weak_key_warning] else warnings1)
      in warnings2)"

text \<open>
  The constructor of \<open>SSLCheckResult\<close>; \<open>checkedAt\<close> is filled by its default factory
  \<open>datetime.utcnow\<close>.
\<close>

definition SSLCheckResult_init ::
  "world \<Rightarrow> string \<Rightarrow> bool \<Rightarrow> SSLCertificate option \<Rightarrow> string option \<Rightarrow> string list
     \<Rightarrow> SSLCheckResult" where
  "SSLCheckResult_init w dname ok cert err ws =
     \<lparr>result_domain = dname, success = ok, certificate = cert, error = err,
      checkedAt = datetime_utcnow w, warnings = ws\<rparr>"

text \<open>The body of the \<open>try\<close> block of \<open>check_certificate\<close>: \<open>Inl\<close> is the exception raised.\<close>

definition check_certificate_try ::
  "SSLCheckerService \<Rightarrow> world \<Rightarrow> string \<Rightarrow> int \<Rightarrow> exn + SSLCheckResult" where
  "check_certificate_try svc w dname port =
     (case get_certificate svc w dname port of
        Inl e \<Rightarrow> Inl e
      | Inr cert_der \<Rightarrow>
          (case parse_certificate svc w cert_der dname of
             Inl e \<Rightarrow> Inl e
           | Inr cert \<Rightarrow>
               let ws = generate_warnings svc cert
               in Inr (SSLCheckResult_init w dname True (Some cert) None ws)))"

text \<open>The four \<open>except\<close> clauses, in the source's order.\<close>

fun check_certificate_except :: "world \<Rightarrow> string \<Rightarrow> exn \<Rightarrow> SSLCheckResult" where
  "check_certificate_except w dname (socket_timeout m) =
     SSLCheckResult_init w dname False None (Some ''Connection timeout'') []"
| "check_certificate_except w dname (socket_gaierror m) =
     SSLCheckResult_init w dname False None (Some ''Domain not found (DNS error)'') []"
| "check_certificate_except w dname (ssl_SSLError m) =
     SSLCheckResult_init w dname False None (Some (''SSL error: '' @ m)) []"
| "check_certificate_except w dname e =
     SSLCheckResult_init w dname False None (Some (''Unexpected error: '' @ str_exn e)) []"

definition check_certificate ::
  "SSLCheckerService \<Rightarrow> world \<Rightarrow> string \<Rightarrow> int \<Rightarrow> SSLCheckResult" where
  "check_certificate svc w dname port =
     (case check_certificate_try svc w dname port of
        Inr r \<Rightarrow> r
      | Inl e \<Rightarrow> check_certificate_except w dname e)"

text \<open>
  \<open>check_domain\<close> is a coroutine whose first statement returns
  \<open>self.check_certificate(domain, port)\<close>; awaiting it gives that value. The statements
  after that \<open>return\<close> are never reached and have no counterpart here.
\<close>

definition check_domain ::
  "SSLCheckerService \<Rightarrow> world \<Rightarrow> string \<Rightarrow> int \<Rightarrow> SSLCheckResult" where
  "check_domain svc w dname port = check_certificate svc w dname port"

section \<open>Formatting a date: \<open>strftime('%Y-%m-%d')\<close>\<close>

text \<open>
  The proleptic Gregorian date of a day number (day 1 is 0001-01-01), as
  \<open>datetime._ord2ymd\<close> computes it, and its rendering: \<open>%m\<close> and \<open>%d\<close> are padded
  to two digits, \<open>%Y\<close> is the year in decimal without padding, as CPython renders it
  through the C library on Linux (year 999 gives \<open>999-01-01\<close>).
\<close>

definition days_before_month :: "int \<Rightarrow> int" where
  "days_before_month m = [0, 31, 59, 90, 120, 151, 181, 212, 243, 273, 304, 334] ! nat (m - 1)"

definition days_in_month :: "int \<Rightarrow> int" where
  "days_in_month m = [31, 28, 31, 30, 31, 30, 31, 31, 30, 31, 30, 31] ! nat (m - 1)"

definition ord2ymd :: "int \<Rightarrow> int \<times> int \<times> int" where
  "ord2ymd ordinal =
     (let n = ordinal - 1;
          n400 = n div 146097; n = n mod 146097;
          year = n400 * 400 + 1;
          n100 = n div 36524; n = n mod 36524;
          n4 = n div 1461; n = n mod 1461;
          n1 = n div 365; n = n mod 365;
          year = year + n100 * 100 + n4 * 4 + n1
      in if n1 = 4 \<or> n100 = 4 then (year - 1, 12, 31)
         else
           let leapyear = (n1 = 3 \<and> (n4 \<noteq> 24 \<or> n100 = 3));
               month = (n + 50) div 32;
               preceding = days_before_month month + (if month > 2 \<and> leapyear then 1 else 0)
           in if preceding > n
              then let month = month - 1;
                       preceding = preceding -
                         (days_in_month month + (if month = 2 \<and> leapyear then 1 else 0))
                   in (year, month, n - preceding + 1)
              else (year, month, n - preceding + 1))"

definition zfill :: "nat \<Rightarrow> string \<Rightarrow> string" where
  "zfill k s = replicate (k - length s) (CHR ''0'') @ s"

definition strftime_ymd :: "datetime \<Rightarrow> string" where
  "strftime_ymd t =
     (case ord2ymd (t div 86400000000 + 1) of
        (y, m, d) \<Rightarrow> str_int y @ ''-'' @ zfill 2 (str_int m) @ ''-'' @ zfill 2 (str_int d))"

section \<open>The batch branch of \<open>SSLAgent._execute_function\<close>\<close>

text \<open>
  The dictionaries the agent returns: a \<open>dict\<close> is the list of its items in insertion
  order.
\<close>

datatype pyval =
    PyNone
  | PyStr string
  | PyInt int
  | PyBool bool
  | PyList "pyval list"
  | PyDict "(string \<times> pyval) list"

record SSLAgent =
  ssl_checker :: SSLCheckerService

definition SSLAgent_init :: SSLAgent where
  "SSLAgent_init = \<lparr>ssl_checker = SSLCheckerService_default\<rparr>"

definition check_mark :: string where
  "check_mark = [CHR 0xE2, CHR 0x9C, CHR 0x85]"

definition cross_mark :: string where
  "cross_mark = [CHR 0xE2, CHR 0x9D, CHR 0x8C]"

text \<open>
  The dictionary appended for one result. Reading \<open>result.certificate.isValid\<close> when
  \<open>certificate\<close> is \<open>None\<close> raises \<open>AttributeError\<close>.
\<close>

definition domain_summary :: "string \<Rightarrow> SSLCheckResult \<Rightarrow> exn + pyval" where
  "domain_summary dname result =
     (if success result then
        (case certificate result of
           None \<Rightarrow> Inl (Exception ''AttributeError'')
         | Some cert \<Rightarrow>
             Inr (PyDict
               [(''domain'', PyStr dname),
                (''status'', PyStr (if isValid cert then check_mark @ '' Valid''
                                    else cross_mark @ '' Invalid'')),
                (''days_remaining'', PyInt (daysUntilExpiry cert)),
                (''expires'', PyStr (strftime_ymd (notAfter cert)))]))
      else
        Inr (PyDict
          [(''domain'', PyStr dname),
           (''status'', PyStr (cross_mark @ '' Error'')),
           (''error'', (case error result of None \<Rightarrow> PyNone | Some e \<Rightarrow> PyStr e))]))"

text \<open>
  The \<open>for domain in domains\<close> loop. The \<open>k\<close>-th call of \<open>check_certificate\<close> made by the
  batch meets the world \<open>env k\<close>: the network and the clock may differ from call to call.
  An exception raised in the loop body leaves the loop.
\<close>

fun check_multiple_loop ::
  "SSLAgent \<Rightarrow> (nat \<Rightarrow> world) \<Rightarrow> nat \<Rightarrow> string list \<Rightarrow> pyval list \<Rightarrow> exn + pyval list" where
  "check_multiple_loop agent env k [] results = Inr results"
| "check_multiple_loop agent env k (dname # rest) results =
     (let result = check_certificate (ssl_checker agent) (env k) dname 443
      in case domain_summary dname result of
           Inl e \<Rightarrow> Inl e
         | Inr s \<Rightarrow> check_multiple_loop agent env (Suc k) rest (results @ [s]))"

text \<open>\<open>arguments.get(key, default)\<close>.\<close>

definition dict_get :: "('k \<rightharpoonup> 'v) \<Rightarrow> 'k \<Rightarrow> 'v \<Rightarrow> 'v" where
  "dict_get m k dflt = (case m k of None \<Rightarrow> dflt | Some v \<Rightarrow> v)"

definition check_multiple_domains ::
  "SSLAgent \<Rightarrow> (nat \<Rightarrow> world) \<Rightarrow> (string \<rightharpoonup> string list) \<Rightarrow> exn + pyval" where
  "check_multiple_domains agent env arguments =
     (let domains = dict_get arguments ''domains'' []
      in case check_multiple_loop agent env 0 domains [] of
           Inl e \<Rightarrow> Inl e
         | Inr results \<Rightarrow>
             Inr (PyDict
               [(''success'', PyBool True),
                (''total_domains'', PyInt (int (length domains))),
                (''results'', PyList results),
                (''message'', PyStr (''Checked '' @ str_int (int (length domains)) @ '' domain(s)''))]))"

text \<open>Reading a batch result back: the value under a key of a dictionary.\<close>

fun pydict_lookup :: "string \<Rightarrow> pyval \<Rightarrow> pyval option" where
  "pydict_lookup k (PyDict items) = map_of items k"
| "pydict_lookup k v = None"

section \<open>Example inputs\<close>

text \<open>
  A certificate valid until 2026-01-01T00:00:00 UTC with a 2048-bit key, and one without
  common names, with a 1024-bit key and no SAN extension. \<open>example_world cert now\<close>
  resolves only \<open>example.com\<close>, which presents \<open>cert\<close>, and its clock reads \<open>now\<close>.
\<close>

definition example_not_after :: datetime where
  "example_not_after = 63902822400000000"

definition one_day :: timedelta where
  "one_day = 86400000000"

definition example_x509 :: x509_Certificate where
  "example_x509 =
     \<lparr>cert_issuer = [(''countryName'', ''US''), (''organizationName'', ''Example CA Org''),
                     (''commonName'', ''Example CA R3''), (''commonName'', ''Second CN'')],
      cert_subject = [(''commonName'', ''example.com'')],
      not_valid_before_utc = 63895046400000000,
      not_valid_after_utc = example_not_after,
      public_key_key_size = Inr 2048,
      get_extension_for_oid_SAN =
        Inr [DNSName ''example.com'', OtherGeneralName ''192.0.2.1'', DNSName ''www.example.com''],
      signature_algorithm_oid_name = ''sha256WithRSAEncryption'',
      serial_number = 0x0123456789abcdef0123\<rparr>"

definition example_x509_bare :: x509_Certificate where
  "example_x509_bare =
     \<lparr>cert_issuer = [(''countryName'', ''US'')],
      cert_subject = [],
      not_valid_before_utc = 63895046400000000,
      not_valid_after_utc = example_not_after,
      public_key_key_size = Inr 1024,
      get_extension_for_oid_SAN = Inl (x509_ExtensionNotFound ''No subjectAltName extension was found''),
      signature_algorithm_oid_name = ''sha1WithRSAEncryption'',
      serial_number = 0xabc\<rparr>"

definition example_getpeercert :: "string \<Rightarrow> int \<Rightarrow> int \<Rightarrow> exn + bytes" where
  "example_getpeercert dname port t =
     (if dname = ''example.com'' then Inr [48, 130]
      else Inl (socket_gaierror ''[Errno -2] Name or service not known''))"

definition example_load_der :: "x509_Certificate \<Rightarrow> bytes \<Rightarrow> exn + x509_Certificate" where
  "example_load_der cert der =
     (if der = [48, 130] then Inr cert else Inl (Exception ''error parsing asn1 value''))"

definition example_world :: "x509_Certificate \<Rightarrow> datetime \<Rightarrow> world" where
  "example_world cert now =
     \<lparr>getpeercert = example_getpeercert,
      load_der_x509_certificate = example_load_der cert,
      datetime_now = now,
      datetime_utcnow = now\<rparr>"

text \<open>
  The records \<open>_parse_certificate\<close> builds from the two certificates, as functions of the
  three fields that depend on the clock.
\<close>

definition example_certificate :: "int \<Rightarrow> bool \<Rightarrow> bool \<Rightarrow> SSLCertificate" where
  "example_certificate days expired soon =
     \<lparr>domain = ''example.com'', isValid = (\<not> expired), issuer = ''Example CA R3'',
      subject = ''example.com'', notBefore = 63895046400000000,
      notAfter = 63902822400000000, daysUntilExpiry = days,
      isExpired = expired, isExpiringSoon = soon, keySize = 2048,
      signatureAlgorithm = ''sha256WithRSAEncryption'',
      sanList = [''example.com'', ''www.example.com''],
      serialNumber = ''0x123456789abcde''\<rparr>"

definition example_certificate_bare :: "int \<Rightarrow> bool \<Rightarrow> bool \<Rightarrow> SSLCertificate" where
  "example_certificate_bare days expired soon =
     \<lparr>domain = ''example.com'', isValid = (\<not> expired), issuer = ''Unknown'',
      subject = ''example.com'', notBefore = 63895046400000000,
      notAfter = 63902822400000000, daysUntilExpiry = days,
      isExpired = expired, isExpiringSoon = soon, keySize = 1024,
      signatureAlgorithm = ''sha1WithRSAEncryption'',
      sanList = [],
      serialNumber = ''0xabc''\<rparr>"

text \<open>The clocks used below: an hour before expiry, 30 and 31 days before, a microsecond after.\<close>

definition hour_before :: datetime where
  "hour_before = example_not_after - 3600000000"

definition days_before_30 :: datetime where
  "days_before_30 = example_not_after - 30 * one_day"

definition days_before_31 :: datetime where
  "days_before_31 = example_not_after - 31 * one_day"

definition just_after :: datetime where
  "just_after = example_not_after + 1"

text \<open>The list under \<open>results\<close> of what the batch returned (empty if there is none).\<close>

definition batch_results :: "exn + pyval \<Rightarrow> pyval list" where
  "batch_results r =
     (case r of
        Inl e \<Rightarrow> []
      | Inr d \<Rightarrow> (case pydict_lookup ''results'' d of Some (PyList rs) \<Rightarrow> rs | _ \<Rightarrow> []))"

text \<open>
  A batch of three names, one of them twice, where only the second call of
  \<open>check_certificate\<close> finds its host.
\<close>

definition example_arguments :: "string \<rightharpoonup> string list" where
  "example_arguments = [''domains'' \<mapsto> [''a.example'', ''example.com'', ''a.example'']]"

definition example_env :: "nat \<Rightarrow> world" where
  "example_env k =
     (if k = 1 then example_world example_x509 days_before_30
      else example_world example_x509_bare just_after)"

section \<open>What \<open>_parse_certificate\<close> returns\<close>

lemma parse_certificate_InrE:
  assumes "parse_certificate svc w der dname = Inr c"
  obtains cert ks where "load_der_x509_certificate w der = Inr cert"
    "public_key_key_size cert = Inr ks"
    "domain c = dname"
    "isValid c = (\<not> isExpired c)"
    "issuer c = common_name_loop ''Unknown'' (cert_issuer cert)"
    "subject c = common_name_loop dname (cert_subject cert)"
    "notBefore c = not_valid_before_utc cert"
    "notAfter c = not_valid_after_utc cert"
    "daysUntilExpiry c = timedelta_days (not_valid_after_utc cert - datetime_now w)"
    "isExpired c = (datetime_now w > not_valid_after_utc cert)"
    "isExpiringSoon c = (0 < daysUntilExpiry c \<and> daysUntilExpiry c \<le> warning_days svc)"
    "keySize c = ks"
    "serialNumber c = take 16 (hex (serial_number cert))"
  using assms unfolding parse_certificate_def Let_def
  by (auto split: sum.splits exn.splits)

lemma timedelta_days_nonneg: "0 \<le> timedelta_days td \<longleftrightarrow> 0 \<le> td"
  unfolding timedelta_days_def by (simp add: pos_imp_zdiv_nonneg_iff)

lemma timedelta_days_pos: "0 < timedelta_days td \<longleftrightarrow> 86400000000 \<le> td"
  unfolding timedelta_days_def by (simp add: pos_imp_zdiv_pos_iff)


text \<open>The example certificates at the four clocks, evaluated.\<close>

lemma parse_example_hour_before:
  "parse_certificate SSLCheckerService_default (example_world example_x509 hour_before)
     [48, 130] ''example.com'' = Inr (example_certificate 0 False False)"
  by code_simp

lemma parse_example_days_before_30:
  "parse_certificate SSLCheckerService_default (example_world example_x509 days_before_30)
     [48, 130] ''example.com'' = Inr (example_certificate 30 False True)"
  by code_simp

lemma parse_example_days_before_31:
  "parse_certificate SSLCheckerService_default (example_world example_x509 days_before_31)
     [48, 130] ''example.com'' = Inr (example_certificate 31 False False)"
  by code_simp

lemma parse_example_just_after:
  "parse_certificate SSLCheckerService_default (example_world example_x509 just_after)
     [48, 130] ''example.com'' = Inr (example_certificate (- 1) True False)"
  by code_simp

lemma parse_example_bare_just_after:
  "parse_certificate SSLCheckerService_default (example_world example_x509_bare just_after)
     [48, 130] ''example.com'' = Inr (example_certificate_bare (- 1) True False)"
  by code_simp

section \<open>Expiry judgments\<close>

text \<open>
  C3, as the code has it. When \<open>notAfter\<close> is in the future at the check time, the
  evaluator gives \<open>isExpired = False\<close> and \<open>daysUntilExpiry \<ge> 0\<close>; the count is positive
  exactly when at least one whole day (24 hours) remains, and is 0 during the last day.
\<close>

theorem future_not_expired:
  "parse_certificate svc w der dname = Inr c \<Longrightarrow> datetime_now w < notAfter c \<Longrightarrow>
     \<not> isExpired c \<and> 0 \<le> daysUntilExpiry c \<and>
     (0 < daysUntilExpiry c) = (one_day \<le> notAfter c - datetime_now w)"
  by (erule parse_certificate_InrE) (simp add: timedelta_days_nonneg timedelta_days_pos one_day_def)

theorem future_not_expired_witness:
  "parse_certificate SSLCheckerService_default (example_world example_x509 days_before_30)
     [48, 130] ''example.com'' = Inr (example_certificate 30 False True) \<and>
   datetime_now (example_world example_x509 days_before_30) < notAfter (example_certificate 30 False True) \<and>
   \<not> isExpired (example_certificate 30 False True) \<and>
   0 \<le> daysUntilExpiry (example_certificate 30 False True) \<and>
   (0 < daysUntilExpiry (example_certificate 30 False True)) =
     (one_day \<le> notAfter (example_certificate 30 False True)
        - datetime_now (example_world example_x509 days_before_30))"
proof -
  have lt: "datetime_now (example_world example_x509 days_before_30)
              < notAfter (example_certificate 30 False True)"
    by (simp add: example_world_def days_before_30_def example_not_after_def one_day_def
        example_certificate_def)
  show ?thesis
    using future_not_expired [OF parse_example_days_before_30 lt] parse_example_days_before_30 lt
    by simp
qed

text \<open>
  C3, as the claim states it, fails one hour before expiry: \<open>notAfter\<close> is in the future,
  the certificate is not expired, and \<open>daysUntilExpiry\<close> is 0, not positive.
\<close>

theorem future_days_positive_counterexample:
  "parse_certificate SSLCheckerService_default (example_world example_x509 hour_before)
     [48, 130] ''example.com'' = Inr (example_certificate 0 False False) \<and>
   datetime_now (example_world example_x509 hour_before) < notAfter (example_certificate 0 False False) \<and>
   \<not> isExpired (example_certificate 0 False False) \<and>
   \<not> 0 < daysUntilExpiry (example_certificate 0 False False)"
  using parse_example_hour_before
  by (simp add: example_world_def hour_before_def example_not_after_def example_certificate_def)

text \<open>
  C4. When \<open>notAfter\<close> is in the past at the check time, the evaluator gives
  \<open>isExpired = True\<close>, \<open>isValid = False\<close> and \<open>isExpiringSoon = False\<close>; and for every
  certificate it returns, \<open>isValid\<close> is the negation of \<open>isExpired\<close>.
\<close>

theorem past_expired:
  "parse_certificate svc w der dname = Inr c \<Longrightarrow>
     isValid c = (\<not> isExpired c) \<and>
     (notAfter c < datetime_now w \<longrightarrow> isExpired c \<and> \<not> isValid c \<and> \<not> isExpiringSoon c)"
  by (erule parse_certificate_InrE) (simp add: timedelta_days_pos)

theorem past_expired_witness:
  "parse_certificate SSLCheckerService_default (example_world example_x509 just_after)
     [48, 130] ''example.com'' = Inr (example_certificate (- 1) True False) \<and>
   notAfter (example_certificate (- 1) True False) < datetime_now (example_world example_x509 just_after) \<and>
   isExpired (example_certificate (- 1) True False) \<and>
   \<not> isValid (example_certificate (- 1) True False) \<and>
   \<not> isExpiringSoon (example_certificate (- 1) True False)"
proof -
  have lt: "notAfter (example_certificate (- 1) True False)
              < datetime_now (example_world example_x509 just_after)"
    by (simp add: example_world_def just_after_def example_not_after_def example_certificate_def)
  show ?thesis
    using past_expired [OF parse_example_just_after] parse_example_just_after lt
    by simp
qed

text \<open>
  C5, as the code has it. For every certificate the evaluator returns, \<open>isExpiringSoon\<close>
  holds iff \<open>0 < daysUntilExpiry \<le> warningDays\<close>. So when \<open>warningDays\<close> is positive (the
  default is 30) a count equal to \<open>warningDays\<close> gives True, and a count of
  \<open>warningDays + 1\<close> gives False.
\<close>

theorem expiring_soon_iff:
  "parse_certificate svc w der dname = Inr c \<Longrightarrow>
     isExpiringSoon c = (0 < daysUntilExpiry c \<and> daysUntilExpiry c \<le> warning_days svc) \<and>
     (0 < warning_days svc \<longrightarrow> daysUntilExpiry c = warning_days svc \<longrightarrow> isExpiringSoon c) \<and>
     (daysUntilExpiry c = warning_days svc + 1 \<longrightarrow> \<not> isExpiringSoon c) \<and>
     (warning_days svc = 30 \<longrightarrow> daysUntilExpiry c = 30 \<longrightarrow> isExpiringSoon c) \<and>
     (warning_days svc = 30 \<longrightarrow> daysUntilExpiry c = 31 \<longrightarrow> \<not> isExpiringSoon c)"
  by (erule parse_certificate_InrE) simp

theorem expiring_soon_iff_witness:
  "warning_days SSLCheckerService_default = 30 \<and>
   parse_certificate SSLCheckerService_default (example_world example_x509 days_before_30)
     [48, 130] ''example.com'' = Inr (example_certificate 30 False True) \<and>
   daysUntilExpiry (example_certificate 30 False True) = 30 \<and>
   isExpiringSoon (example_certificate 30 False True) \<and>
   parse_certificate SSLCheckerService_default (example_world example_x509 days_before_31)
     [48, 130] ''example.com'' = Inr (example_certificate 31 False False) \<and>
   daysUntilExpiry (example_certificate 31 False False) = 31 \<and>
   \<not> isExpiringSoon (example_certificate 31 False False)"
proof -
  have wd: "warning_days SSLCheckerService_default = 30"
    by (simp add: SSLCheckerService_default_def SSLCheckerService_init_def)
  have d30: "daysUntilExpiry (example_certificate 30 False True) = 30"
    and d31: "daysUntilExpiry (example_certificate 31 False False) = 31"
    by (simp_all add: example_certificate_def)
  show ?thesis
    using expiring_soon_iff [OF parse_example_days_before_30]
      expiring_soon_iff [OF parse_example_days_before_31]
      parse_example_days_before_30 parse_example_days_before_31 wd d30 d31
    by simp
qed

lemma parse_example_zero_warning_days:
  "parse_certificate (SSLCheckerService_init 10 0) (example_world example_x509 example_not_after)
     [48, 130] ''example.com'' = Inr (example_certificate 0 False False)"
  by code_simp

text \<open>
  C5, as the claim states it, fails for a service built with \<open>warning_days = 0\<close> checking
  at the very instant of \<open>notAfter\<close>: \<open>daysUntilExpiry\<close> is 0 and equals \<open>warningDays\<close>,
  and \<open>isExpiringSoon\<close> is False.
\<close>

theorem expiring_soon_boundary_counterexample:
  "parse_certificate (SSLCheckerService_init 10 0) (example_world example_x509 example_not_after)
     [48, 130] ''example.com'' = Inr (example_certificate 0 False False) \<and>
   daysUntilExpiry (example_certificate 0 False False)
     = warning_days (SSLCheckerService_init 10 0) \<and>
   \<not> isExpiringSoon (example_certificate 0 False False)"
  using parse_example_zero_warning_days
  by (simp add: example_certificate_def SSLCheckerService_init_def)



section \<open>The single-domain check\<close>

lemma check_certificate_try_Inr:
  "check_certificate_try svc w dname port = Inr r \<Longrightarrow>
     result_domain r = dname \<and> success r \<and> certificate r \<noteq> None \<and> error r = None"
  unfolding check_certificate_try_def
  by (auto simp add: SSLCheckResult_init_def Let_def split: sum.splits)

lemma check_certificate_except_fields:
  "result_domain (check_certificate_except w dname e) = dname \<and>
   \<not> success (check_certificate_except w dname e) \<and>
   certificate (check_certificate_except w dname e) = None \<and>
   error (check_certificate_except w dname e) \<noteq> None \<and>
   warnings (check_certificate_except w dname e) = []"
  by (cases e) (simp_all add: SSLCheckResult_init_def)

lemma check_certificate_fields:
  "result_domain (check_certificate svc w dname port) = dname \<and>
   (certificate (check_certificate svc w dname port) \<noteq> None)
     = success (check_certificate svc w dname port) \<and>
   (error (check_certificate svc w dname port) \<noteq> None)
     = (\<not> success (check_certificate svc w dname port))"
proof (cases "check_certificate_try svc w dname port")
  case (Inl e)
  then show ?thesis
    using check_certificate_except_fields [of w dname e]
    by (simp add: check_certificate_def)
next
  case (Inr r)
  then show ?thesis
    using check_certificate_try_Inr [OF Inr]
    by (simp add: check_certificate_def)
qed

text \<open>
  C1. \<open>check_certificate\<close> returns a result for every domain and port. An exception
  raised in the \<open>try\<close> block (by the fetch, by the parser, or anywhere else in it) gives
  the result of the matching \<open>except\<close> clause, with \<open>success = False\<close>, no certificate,
  an error text and no warnings; \<open>success\<close> holds exactly when the block raised nothing.
  The certificate is present iff \<open>success\<close>, the error text iff not \<open>success\<close>.
\<close>

theorem check_certificate_converts_failures:
  "result_domain (check_certificate svc w dname port) = dname \<and>
   success (check_certificate svc w dname port)
     = (\<exists>r. check_certificate_try svc w dname port = Inr r) \<and>
   (certificate (check_certificate svc w dname port) \<noteq> None)
     = success (check_certificate svc w dname port) \<and>
   (error (check_certificate svc w dname port) \<noteq> None)
     = (\<not> success (check_certificate svc w dname port)) \<and>
   (\<forall>e. get_certificate svc w dname port = Inl e \<longrightarrow>
      \<not> success (check_certificate svc w dname port)) \<and>
   (\<forall>der e. get_certificate svc w dname port = Inr der \<longrightarrow>
      parse_certificate svc w der dname = Inl e \<longrightarrow>
      \<not> success (check_certificate svc w dname port)) \<and>
   (\<forall>e. check_certificate_try svc w dname port = Inl e \<longrightarrow>
      \<not> success (check_certificate svc w dname port) \<and>
      warnings (check_certificate svc w dname port) = [] \<and>
      error (check_certificate svc w dname port) = Some
        (case e of
           socket_timeout m \<Rightarrow> ''Connection timeout''
         | socket_gaierror m \<Rightarrow> ''Domain not found (DNS error)''
         | ssl_SSLError m \<Rightarrow> ''SSL error: '' @ m
         | x509_ExtensionNotFound m \<Rightarrow> ''Unexpected error: '' @ m
         | Exception m \<Rightarrow> ''Unexpected error: '' @ m))"
proof -
  let ?r = "check_certificate svc w dname port"
  have succ: "success ?r = (\<exists>r. check_certificate_try svc w dname port = Inr r)"
  proof (cases "check_certificate_try svc w dname port")
    case (Inl e)
    then show ?thesis
      using check_certificate_except_fields [of w dname e] by (simp add: check_certificate_def)
  next
    case (Inr r)
    then show ?thesis
      using check_certificate_try_Inr [OF Inr] by (simp add: check_certificate_def)
  qed
  have fetch: "\<forall>e. get_certificate svc w dname port = Inl e \<longrightarrow> \<not> success ?r"
    unfolding succ by (simp add: check_certificate_try_def)
  have parse: "\<forall>der e. get_certificate svc w dname port = Inr der \<longrightarrow>
      parse_certificate svc w der dname = Inl e \<longrightarrow> \<not> success ?r"
    unfolding succ by (simp add: check_certificate_try_def)
  have handler: "\<forall>e. check_certificate_try svc w dname port = Inl e \<longrightarrow>
      \<not> success ?r \<and> warnings ?r = [] \<and>
      error ?r = Some
        (case e of
           socket_timeout m \<Rightarrow> ''Connection timeout''
         | socket_gaierror m \<Rightarrow> ''Domain not found (DNS error)''
         | ssl_SSLError m \<Rightarrow> ''SSL error: '' @ m
         | x509_ExtensionNotFound m \<Rightarrow> ''Unexpected error: '' @ m
         | Exception m \<Rightarrow> ''Unexpected error: '' @ m)"
  proof (intro allI impI)
    fix e
    assume "check_certificate_try svc w dname port = Inl e"
    then show "\<not> success ?r \<and> warnings ?r = [] \<and>
      error ?r = Some
        (case e of
           socket_timeout m \<Rightarrow> ''Connection timeout''
         | socket_gaierror m \<Rightarrow> ''Domain not found (DNS error)''
         | ssl_SSLError m \<Rightarrow> ''SSL error: '' @ m
         | x509_ExtensionNotFound m \<Rightarrow> ''Unexpected error: '' @ m
         | Exception m \<Rightarrow> ''Unexpected error: '' @ m)"
      by (cases e) (simp_all add: check_certificate_def SSLCheckResult_init_def)
  qed
  show ?thesis
    using succ fetch parse handler check_certificate_fields [of svc w dname port]
    by blast
qed

lemma check_example_unknown_domain:
  "check_certificate_try SSLCheckerService_default (example_world example_x509 hour_before)
     ''nosuch.example'' 443 = Inl (socket_gaierror ''[Errno -2] Name or service not known'')"
  by code_simp

theorem check_certificate_converts_failures_witness:
  "check_certificate_try SSLCheckerService_default (example_world example_x509 hour_before)
     ''nosuch.example'' 443 = Inl (socket_gaierror ''[Errno -2] Name or service not known'') \<and>
   \<not> success (check_certificate SSLCheckerService_default
       (example_world example_x509 hour_before) ''nosuch.example'' 443) \<and>
   certificate (check_certificate SSLCheckerService_default
       (example_world example_x509 hour_before) ''nosuch.example'' 443) = None \<and>
   error (check_certificate SSLCheckerService_default
       (example_world example_x509 hour_before) ''nosuch.example'' 443)
     = Some ''Domain not found (DNS error)''"
  using check_certificate_converts_failures [of SSLCheckerService_default
      "example_world example_x509 hour_before" "''nosuch.example''" 443]
    check_example_unknown_domain
  by auto

text \<open>
  C10. Awaiting \<open>check_domain\<close> gives the result of \<open>check_certificate\<close> on the same
  arguments, in the same world.
\<close>

theorem check_domain_is_check_certificate:
  "check_domain svc w dname port = check_certificate svc w dname port"
  by (simp add: check_domain_def)

theorem check_domain_is_check_certificate_witness:
  "check_domain SSLCheckerService_default (example_world example_x509 hour_before)
     ''nosuch.example'' 443
   = check_certificate SSLCheckerService_default (example_world example_x509 hour_before)
     ''nosuch.example'' 443 \<and>
   error (check_domain SSLCheckerService_default (example_world example_x509 hour_before)
     ''nosuch.example'' 443) = Some ''Domain not found (DNS error)''"
proof -
  have "error (check_certificate SSLCheckerService_default
      (example_world example_x509 hour_before) ''nosuch.example'' 443)
      = Some ''Domain not found (DNS error)''"
    using check_example_unknown_domain by (simp add: check_certificate_def SSLCheckResult_init_def)
  then show ?thesis
    using check_domain_is_check_certificate [of SSLCheckerService_default
      "example_world example_x509 hour_before" "''nosuch.example''" 443]
    by simp
qed

section \<open>Warnings\<close>







section \<open>Serial number and names\<close>

text \<open>
  C7. The rendered serial number is a function of the certificate's serial number alone:
  two evaluations (any service, clock, bytes and queried name) of certificates with the
  same serial number render the same string, the first 16 characters of \<open>hex(serial)\<close>.
  It has exactly 16 characters when \<open>hex(serial)\<close> has at least 16, and is the whole of
  \<open>hex(serial)\<close> when that is shorter.
\<close>

theorem serial_number_rendering:
  "parse_certificate svc w der dname = Inr c \<Longrightarrow>
   load_der_x509_certificate w der = Inr cert \<Longrightarrow>
   parse_certificate svc' w' der' dname' = Inr c' \<Longrightarrow>
   load_der_x509_certificate w' der' = Inr cert' \<Longrightarrow>
   serial_number cert' = serial_number cert \<Longrightarrow>
     serialNumber c' = serialNumber c \<and>
     serialNumber c = take 16 (hex (serial_number cert)) \<and>
     length (serialNumber c) \<le> 16 \<and>
     (16 \<le> length (hex (serial_number cert)) \<longrightarrow> length (serialNumber c) = 16) \<and>
     (length (hex (serial_number cert)) < 16 \<longrightarrow> serialNumber c = hex (serial_number cert)) \<and>
     (length (serialNumber c) < 16 \<longrightarrow> length (hex (serial_number cert)) < 16)"
proof -
  assume p: "parse_certificate svc w der dname = Inr c"
    and l: "load_der_x509_certificate w der = Inr cert"
    and p': "parse_certificate svc' w' der' dname' = Inr c'"
    and l': "load_der_x509_certificate w' der' = Inr cert'"
    and eq: "serial_number cert' = serial_number cert"
  have s: "serialNumber c = take 16 (hex (serial_number cert))"
    using p l by (auto elim: parse_certificate_InrE)
  have s': "serialNumber c' = take 16 (hex (serial_number cert'))"
    using p' l' by (auto elim: parse_certificate_InrE)
  show ?thesis
    using s s' eq by auto
qed

lemma load_example:
  "load_der_x509_certificate (example_world cert now) [48, 130] = Inr cert"
  by (simp add: example_world_def example_load_der_def)

lemma hex_example_serial:
  "hex (serial_number example_x509) = ''0x123456789abcdef0123''"
  by code_simp

theorem serial_number_rendering_witness:
  "serialNumber (example_certificate (- 1) True False) = serialNumber (example_certificate 0 False False) \<and>
   serialNumber (example_certificate 0 False False) = ''0x123456789abcde'' \<and>
   length (hex (serial_number example_x509)) = 21 \<and>
   length (serialNumber (example_certificate 0 False False)) = 16"
  using serial_number_rendering [OF parse_example_hour_before load_example
      parse_example_just_after load_example refl] hex_example_serial
  by (simp add: example_certificate_def)

lemma common_name_loop_find:
  "common_name_loop cn attrs =
     (case find (\<lambda>attr. fst attr = ''commonName'') attrs of None \<Rightarrow> cn | Some attr \<Rightarrow> snd attr)"
  by (induction attrs) simp_all

text \<open>
  C8. For every certificate the evaluator returns, \<open>issuer\<close> is the value of the first
  attribute of the issuer name whose OID name is \<open>commonName\<close>, or \<open>Unknown\<close> when there
  is none; \<open>subject\<close> is the value of the first such attribute of the subject name, or
  the queried domain when there is none.
\<close>

theorem common_name_extraction:
  "parse_certificate svc w der dname = Inr c \<Longrightarrow>
   load_der_x509_certificate w der = Inr cert \<Longrightarrow>
     issuer c =
       (case find (\<lambda>attr. fst attr = ''commonName'') (cert_issuer cert) of
          None \<Rightarrow> ''Unknown'' | Some attr \<Rightarrow> snd attr) \<and>
     subject c =
       (case find (\<lambda>attr. fst attr = ''commonName'') (cert_subject cert) of
          None \<Rightarrow> dname | Some attr \<Rightarrow> snd attr)"
proof -
  assume p: "parse_certificate svc w der dname = Inr c"
    and l: "load_der_x509_certificate w der = Inr cert"
  have "issuer c = common_name_loop ''Unknown'' (cert_issuer cert)"
    and "subject c = common_name_loop dname (cert_subject cert)"
    using p l by (auto elim: parse_certificate_InrE)
  then show ?thesis
    by (simp add: common_name_loop_find)
qed

theorem common_name_extraction_witness:
  "issuer (example_certificate 0 False False) = ''Example CA R3'' \<and>
   subject (example_certificate 0 False False) = ''example.com'' \<and>
   find (\<lambda>attr. fst attr = ''commonName'') (cert_issuer example_x509_bare) = None \<and>
   find (\<lambda>attr. fst attr = ''commonName'') (cert_subject example_x509_bare) = None \<and>
   issuer (example_certificate_bare (- 1) True False) = ''Unknown'' \<and>
   subject (example_certificate_bare (- 1) True False) = ''example.com''"
  using common_name_extraction [OF parse_example_hour_before load_example]
    common_name_extraction [OF parse_example_bare_just_after load_example]
  by (simp add: example_x509_def example_x509_bare_def)

section \<open>The batch\<close>

lemma domain_summary_check_certificate:
  "\<exists>s. domain_summary dname (check_certificate svc w dname port) = Inr s \<and>
       pydict_lookup ''domain'' s = Some (PyStr dname)"
proof -
  let ?r = "check_certificate svc w dname port"
  have c: "(certificate ?r \<noteq> None) = success ?r"
    using check_certificate_fields [of svc w dname port] by blast
  show ?thesis
  proof (cases "success ?r")
    case True
    then obtain cert where "certificate ?r = Some cert"
      using c by auto
    with True show ?thesis
      by (simp add: domain_summary_def)
  next
    case False
    then show ?thesis
      by (simp add: domain_summary_def)
  qed
qed

lemma check_multiple_loop_results:
  "\<exists>rs. check_multiple_loop agent env k ds acc = Inr (acc @ rs) \<and>
        length rs = length ds \<and>
        (\<forall>i<length ds.
           domain_summary (ds ! i)
             (check_certificate (ssl_checker agent) (env (k + i)) (ds ! i) 443) = Inr (rs ! i))"
proof (induction ds arbitrary: k acc)
  case Nil
  show ?case by simp
next
  case (Cons d ds)
  obtain s where s: "domain_summary d (check_certificate (ssl_checker agent) (env k) d 443) = Inr s"
    using domain_summary_check_certificate by blast
  obtain rs where
    loop: "check_multiple_loop agent env (Suc k) ds (acc @ [s]) = Inr ((acc @ [s]) @ rs)" and
    len: "length rs = length ds" and
    each: "\<forall>i<length ds.
      domain_summary (ds ! i)
        (check_certificate (ssl_checker agent) (env (Suc k + i)) (ds ! i) 443) = Inr (rs ! i)"
    using Cons.IH [of "Suc k" "acc @ [s]"] by blast
  have "check_multiple_loop agent env k (d # ds) acc = Inr (acc @ (s # rs))"
    using s loop by simp
  moreover have "length (s # rs) = length (d # ds)"
    using len by simp
  moreover have "\<forall>i<length (d # ds).
      domain_summary ((d # ds) ! i)
        (check_certificate (ssl_checker agent) (env (k + i)) ((d # ds) ! i) 443)
      = Inr ((s # rs) ! i)"
  proof (intro allI impI)
    fix i
    assume i: "i < length (d # ds)"
    show "domain_summary ((d # ds) ! i)
        (check_certificate (ssl_checker agent) (env (k + i)) ((d # ds) ! i) 443)
      = Inr ((s # rs) ! i)"
    proof (cases i)
      case 0
      then show ?thesis using s by simp
    next
      case (Suc j)
      then show ?thesis using each i by simp
    qed
  qed
  ultimately show ?case by blast
qed

text \<open>
  C2. For a list of N domains the batch returns (raising nothing) a dictionary whose
  \<open>total_domains\<close> is N and whose \<open>results\<close> has N entries; the \<open>domain\<close> fields of the
  entries are the input list itself, in order and with its repetitions; entry \<open>i\<close> is the
  summary of the check of domain \<open>i\<close> in the world of call \<open>i\<close>. Changing what any other
  call meets (a DNS failure there, say) leaves entry \<open>i\<close> as it is.
\<close>

theorem check_multiple_domains_order:
  assumes d: "domains = dict_get arguments ''domains'' []"
  shows "\<exists>results.
     check_multiple_domains agent env arguments =
       Inr (PyDict
         [(''success'', PyBool True),
          (''total_domains'', PyInt (int (length domains))),
          (''results'', PyList results),
          (''message'', PyStr (''Checked '' @ str_int (int (length domains)) @ '' domain(s)''))]) \<and>
     length results = length domains \<and>
     map (pydict_lookup ''domain'') results = map (\<lambda>x. Some (PyStr x)) domains \<and>
     (\<forall>i<length domains.
        domain_summary (domains ! i)
          (check_certificate (ssl_checker agent) (env i) (domains ! i) 443) = Inr (results ! i)) \<and>
     (\<forall>env' i. i < length domains \<longrightarrow> env' i = env i \<longrightarrow>
        batch_results (check_multiple_domains agent env' arguments) ! i = results ! i)"
proof -
  obtain rs where
    loop: "check_multiple_loop agent env 0 domains [] = Inr rs" and
    len: "length rs = length domains" and
    each: "\<forall>i<length domains.
      domain_summary (domains ! i)
        (check_certificate (ssl_checker agent) (env i) (domains ! i) 443) = Inr (rs ! i)"
    using check_multiple_loop_results [of agent env 0 domains "[]"] by auto
  have whole: "check_multiple_domains agent env arguments =
       Inr (PyDict
         [(''success'', PyBool True),
          (''total_domains'', PyInt (int (length domains))),
          (''results'', PyList rs),
          (''message'', PyStr (''Checked '' @ str_int (int (length domains)) @ '' domain(s)''))])"
    using loop by (simp add: check_multiple_domains_def d [symmetric] Let_def)
  have names: "map (pydict_lookup ''domain'') rs = map (\<lambda>x. Some (PyStr x)) domains"
  proof (rule nth_equalityI)
    show "length (map (pydict_lookup ''domain'') rs) = length (map (\<lambda>x. Some (PyStr x)) domains)"
      using len by simp
  next
    fix i
    assume "i < length (map (pydict_lookup ''domain'') rs)"
    then have i: "i < length domains"
      using len by simp
    obtain s where
      s: "domain_summary (domains ! i)
            (check_certificate (ssl_checker agent) (env i) (domains ! i) 443) = Inr s" and
      n: "pydict_lookup ''domain'' s = Some (PyStr (domains ! i))"
      using domain_summary_check_certificate by blast
    have "s = rs ! i"
      using s each i by simp
    then show "map (pydict_lookup ''domain'') rs ! i = map (\<lambda>x. Some (PyStr x)) domains ! i"
      using n i len by simp
  qed
  have indep: "\<forall>env' i. i < length domains \<longrightarrow> env' i = env i \<longrightarrow>
        batch_results (check_multiple_domains agent env' arguments) ! i = rs ! i"
  proof (intro allI impI)
    fix env' :: "nat \<Rightarrow> world" and i
    assume i: "i < length domains" and same: "env' i = env i"
    obtain rs' where
      loop': "check_multiple_loop agent env' 0 domains [] = Inr rs'" and
      each': "\<forall>i<length domains.
        domain_summary (domains ! i)
          (check_certificate (ssl_checker agent) (env' i) (domains ! i) 443) = Inr (rs' ! i)"
      using check_multiple_loop_results [of agent env' 0 domains "[]"] by auto
    have "batch_results (check_multiple_domains agent env' arguments) = rs'"
      using loop' by (simp add: check_multiple_domains_def d [symmetric] Let_def batch_results_def)
    moreover have "rs' ! i = rs ! i"
      using each each' i same by fastforce
    ultimately show "batch_results (check_multiple_domains agent env' arguments) ! i = rs ! i"
      by simp
  qed
  show ?thesis
    using whole len names each indep by blast
qed

lemma example_batch:
  "check_multiple_domains SSLAgent_init example_env example_arguments =
     Inr (PyDict
       [(''success'', PyBool True),
        (''total_domains'', PyInt 3),
        (''results'', PyList
          [PyDict [(''domain'', PyStr ''a.example''),
                   (''status'', PyStr (cross_mark @ '' Error'')),
                   (''error'', PyStr ''Domain not found (DNS error)'')],
           PyDict [(''domain'', PyStr ''example.com''),
                   (''status'', PyStr (check_mark @ '' Valid'')),
                   (''days_remaining'', PyInt 30),
                   (''expires'', PyStr ''2026-01-01'')],
           PyDict [(''domain'', PyStr ''a.example''),
                   (''status'', PyStr (cross_mark @ '' Error'')),
                   (''error'', PyStr ''Domain not found (DNS error)'')]]),
        (''message'', PyStr ''Checked 3 domain(s)'')])"
  by code_simp

theorem check_multiple_domains_order_witness:
  "[''a.example'', ''example.com'', ''a.example''] = dict_get example_arguments ''domains'' [] \<and>
   batch_results (check_multiple_domains SSLAgent_init example_env example_arguments) =
     [PyDict [(''domain'', PyStr ''a.example''),
              (''status'', PyStr (cross_mark @ '' Error'')),
              (''error'', PyStr ''Domain not found (DNS error)'')],
      PyDict [(''domain'', PyStr ''example.com''),
              (''status'', PyStr (check_mark @ '' Valid'')),
              (''days_remaining'', PyInt 30),
              (''expires'', PyStr ''2026-01-01'')],
      PyDict [(''domain'', PyStr ''a.example''),
              (''status'', PyStr (cross_mark @ '' Error'')),
              (''error'', PyStr ''Domain not found (DNS error)'')]] \<and>
   domain_summary ''example.com''
     (check_certificate (ssl_checker SSLAgent_init) (example_env 1) ''example.com'' 443) =
     Inr (PyDict [(''domain'', PyStr ''example.com''),
              (''status'', PyStr (check_mark @ '' Valid'')),
              (''days_remaining'', PyInt 30),
              (''expires'', PyStr ''2026-01-01'')])"
proof -
  have dg: "[''a.example'', ''example.com'', ''a.example''] = dict_get example_arguments ''domains'' []"
    by (simp add: dict_get_def example_arguments_def)
  obtain results where
    whole: "check_multiple_domains SSLAgent_init example_env example_arguments =
       Inr (PyDict
         [(''success'', PyBool True),
          (''total_domains'', PyInt (int (length [''a.example'', ''example.com'', ''a.example'']))),
          (''results'', PyList results),
          (''message'', PyStr (''Checked '' @
             str_int (int (length [''a.example'', ''example.com'', ''a.example''])) @ '' domain(s)''))])" and
    each: "\<forall>i<length [''a.example'', ''example.com'', ''a.example''].
        domain_summary ([''a.example'', ''example.com'', ''a.example''] ! i)
          (check_certificate (ssl_checker SSLAgent_init) (example_env i)
             ([''a.example'', ''example.com'', ''a.example''] ! i) 443) = Inr (results ! i)"
    using check_multiple_domains_order [OF dg, of SSLAgent_init example_env] by blast
  have r: "results =
     [PyDict [(''domain'', PyStr ''a.example''),
              (''status'', PyStr (cross_mark @ '' Error'')),
              (''error'', PyStr ''Domain not found (DNS error)'')],
      PyDict [(''domain'', PyStr ''example.com''),
              (''status'', PyStr (check_mark @ '' Valid'')),
              (''days_remaining'', PyInt 30),
              (''expires'', PyStr ''2026-01-01'')],
      PyDict [(''domain'', PyStr ''a.example''),
              (''status'', PyStr (cross_mark @ '' Error'')),
              (''error'', PyStr ''Domain not found (DNS error)'')]]"
    using whole example_batch by simp
  have one: "domain_summary ''example.com''
     (check_certificate (ssl_checker SSLAgent_init) (example_env 1) ''example.com'' 443) =
     Inr (results ! 1)"
    using each [rule_format, of 1] by simp
  show ?thesis
    using dg example_batch one r by (simp add: batch_results_def)
qed

end
